theory Spec2Isabelle
  imports Complex_Main
begin

section \<open>Tensors, layer weights and the backend session\<close>

text \<open>
  The script \<^verbatim>\<open>scripts/functions/vae.py\<close> builds a Keras graph once and then runs it many
  times. Floating-point numbers are modelled as exact reals, but for the warm-up cell,
  whose roundings are written out. A batch is a list of rows (one row per sample); a
  symbolic tensor of the graph is a function from a run of the graph to the value the
  tensor takes in that run.
\<close>

type_synonym vec = "real list"
type_synonym matrix = "real list list"

record dense_weights =
  kernel :: matrix
  bias :: vec

record batchnorm_weights =
  bn_gamma :: vec
  bn_beta :: vec
  moving_mean :: vec
  moving_variance :: vec

text \<open>The variables of the eight weighted layer instances the function creates.\<close>

record params =
  w_hidden_dense :: dense_weights
  w_hidden_batchnorm :: batchnorm_weights
  w_z_mean_dense :: dense_weights
  w_z_mean_batchnorm :: batchnorm_weights
  w_z_log_var_dense :: dense_weights
  w_z_log_var_batchnorm :: batchnorm_weights
  w_decoder_dense_1 :: dense_weights
  w_decoder_dense_2 :: dense_weights

text \<open>
  The backend session holds every variable: the scalar made by \<^verbatim>\<open>beta = K.variable(0)\<close>,
  the layer weights and the optimizer's own slots.
\<close>

record session =
  beta_var :: real
  layer_vars :: params
  optimizer_vars :: vec

text \<open>
  One run of the graph: the session as it is at that moment, the values fed to the two
  placeholders, the draws \<^verbatim>\<open>K.random_normal(shape, mean, stddev)\<close> yields in this run, and
  the learning phase (training or inference).
\<close>

record run =
  sess :: session
  rnaseq_input_feed :: matrix
  decoder_input_feed :: matrix
  random_normal :: "nat \<times> nat \<Rightarrow> real \<Rightarrow> real \<Rightarrow> matrix"
  learning_phase :: bool

type_synonym tensor = "run \<Rightarrow> matrix"

text \<open>
  What the libraries and the operating system supply and the script only calls: Keras'
  per-sample \<^verbatim>\<open>metrics.binary_crossentropy\<close>, the \<^verbatim>\<open>BatchNormalization\<close> layer, the weight
  initializers, numpy's \<^verbatim>\<open>RandomState(seed).choice(N, size=n, replace=False)\<close> behind
  \<^verbatim>\<open>DataFrame.sample\<close>, and one epoch of Adam mini-batch updates (learning rate, batch
  size, objective, training rows, validation rows, epoch number, session), which returns
  the new layer weights and optimizer slots with the epoch's training and validation loss.
  \<open>training_error\<close> is the exception, if any, with which Keras ends building, compiling
  or fitting the model for the given learning rate, batch size, number of epochs, kappa,
  the three layer widths, \<open>epsilon_std\<close>, training rows and validation rows (a batch size
  of 0, for one). \<open>write_error\<close> is the exception, if any, with which the operating system
  refuses to create the file at a path (a missing directory, for one).
\<close>

datatype initializer = glorot_uniform | glorot_normal | random_uniform | zeros

text \<open>The exceptions a call can end with.\<close>

datatype error =
    FileNotFoundError | ParserError | ValueError | IndexError | KeyError | TypeError
  | ZeroDivisionError | OSError | OtherError string

record backend =
  binary_crossentropy :: "vec \<Rightarrow> vec \<Rightarrow> real"
  batch_normalization :: "batchnorm_weights \<Rightarrow> bool \<Rightarrow> matrix \<Rightarrow> matrix"
  initial_kernel :: "initializer \<Rightarrow> string \<Rightarrow> nat \<times> nat \<Rightarrow> matrix"
  choice :: "nat \<Rightarrow> nat \<Rightarrow> nat \<Rightarrow> nat list"
  adam_epoch :: "real \<Rightarrow> nat \<Rightarrow> (run \<Rightarrow> real) \<Rightarrow> matrix \<Rightarrow> matrix \<Rightarrow> nat \<Rightarrow> session
                   \<Rightarrow> (params \<times> vec) \<times> (real \<times> real)"
  training_error :: "real \<Rightarrow> nat \<Rightarrow> nat \<Rightarrow> real \<Rightarrow> nat \<times> nat \<times> nat \<Rightarrow> real \<Rightarrow> matrix \<Rightarrow> matrix
                       \<Rightarrow> error option"
  write_error :: "string \<Rightarrow> error option"

subsection \<open>Rounding\<close>

text \<open>
  Python 3's \<^verbatim>\<open>round\<close>: to the nearest integer, a tie to the even one. It is also the
  rounding of a binary floating-point significand.
\<close>

definition py_round :: "real \<Rightarrow> int" where
  "py_round x =
     (let f = \<lfloor>x\<rfloor>; d = x - of_int f
      in if d < 1 / 2 then f else if 1 / 2 < d then f + 1 else if even f then f else f + 1)"

definition pow2 :: "int \<Rightarrow> real" where
  "pow2 k = (if 0 \<le> k then 2 ^ nat k else 1 / 2 ^ nat (- k))"

text \<open>
  The nearest binary floating-point number with a significand of \<open>p\<close> bits and least
  exponent \<open>emin\<close>, a tie going to the even significand; below \<open>2 ^ emin\<close> the numbers are
  the subnormal ones. The format's largest number is not modelled: beyond it the machine
  operation yields infinity, which a real cannot hold, and the statements about the cell
  below keep away from it. Everywhere else in this theory a float is its exact value; the
  warm-up cell is rounded because the callback branches on it.
\<close>

definition float_round :: "nat \<Rightarrow> int \<Rightarrow> real \<Rightarrow> real" where
  "float_round p emin x =
     (if x = 0 then 0
      else let e = max \<lfloor>log 2 \<bar>x\<bar>\<rfloor> emin;
               ulp = pow2 (e - int p + 1)
           in real_of_int (py_round (x / ulp)) * ulp)"

definition float32 :: "real \<Rightarrow> real" where
  "float32 x = float_round 24 (- 126) x"

definition float64 :: "real \<Rightarrow> real" where
  "float64 x = float_round 53 (- 1022) x"

subsection \<open>Backend operations\<close>

text \<open>
  Reading and writing the scalar variable, and the elementwise tensor operations the
  script uses. The variable made by \<^verbatim>\<open>K.variable(0)\<close> has Keras' default dtype, float32,
  and \<^verbatim>\<open>K.set_value\<close> casts what it is given to that dtype. The operands of every
  binary operation below have equal shapes wherever the script applies it (both come
  from the same batch and from layers of equal width), so no row or entry is cut off by
  \<open>map2\<close>. \<open>K_mean\<close> is meant on a non-empty batch: on
  an empty one the backend yields NaN, where the quotient here is 0.
\<close>

definition K_get_value :: "session \<Rightarrow> real" where
  "K_get_value s = beta_var s"

definition K_set_value :: "session \<Rightarrow> real \<Rightarrow> session" where
  "K_set_value s v = s\<lparr>beta_var := float32 v\<rparr>"

definition K_square :: "matrix \<Rightarrow> matrix" where
  "K_square m = map (map (\<lambda>v. v * v)) m"

definition K_exp :: "matrix \<Rightarrow> matrix" where
  "K_exp m = map (map exp) m"

definition K_sum_last :: "matrix \<Rightarrow> vec" where
  "K_sum_last m = map sum_list m"

definition K_mean :: "vec \<Rightarrow> real" where
  "K_mean v = sum_list v / real (length v)"

definition scalar_add :: "real \<Rightarrow> matrix \<Rightarrow> matrix" where
  "scalar_add c m = map (map (\<lambda>v. c + v)) m"

definition scalar_div :: "matrix \<Rightarrow> real \<Rightarrow> matrix" where
  "scalar_div m c = map (map (\<lambda>v. v / c)) m"

definition mat_add :: "matrix \<Rightarrow> matrix \<Rightarrow> matrix" where
  "mat_add a b = map2 (map2 (+)) a b"

definition mat_sub :: "matrix \<Rightarrow> matrix \<Rightarrow> matrix" where
  "mat_sub a b = map2 (map2 (-)) a b"

definition mat_mul :: "matrix \<Rightarrow> matrix \<Rightarrow> matrix" where
  "mat_mul a b = map2 (map2 (*)) a b"

definition vec_add :: "vec \<Rightarrow> vec \<Rightarrow> vec" where
  "vec_add a b = map2 (+) a b"

definition scalar_mul :: "real \<Rightarrow> vec \<Rightarrow> vec" where
  "scalar_mul c v = map (\<lambda>x. c * x) v"

definition shape :: "matrix \<Rightarrow> nat \<times> nat" where
  "shape m = (length m, (case m of [] \<Rightarrow> 0 | row # _ \<Rightarrow> length row))"

text \<open>A batch of \<open>fst sh\<close> rows, each of \<open>snd sh\<close> entries.\<close>

definition has_shape :: "matrix \<Rightarrow> nat \<times> nat \<Rightarrow> bool" where
  "has_shape m sh = (length m = fst sh \<and> list_all (\<lambda>row. length row = snd sh) m)"


section \<open>Layers\<close>

datatype activation = linear | relu | sigmoid

fun activate :: "activation \<Rightarrow> real \<Rightarrow> real" where
  "activate linear v = v"
| "activate relu v = max v 0"
| "activate sigmoid v = 1 / (1 + exp (- v))"

text \<open>
  The constructor arguments of a \<^verbatim>\<open>Dense\<close> layer. Keras' defaults are no activation
  (\<open>linear\<close>) and the \<open>glorot_uniform\<close> kernel initializer.
\<close>

record dense_config =
  units :: nat
  activation :: activation
  kernel_initializer :: initializer

text \<open>
  Calling a dense layer on a batch: \<^verbatim>\<open>activation(K.dot(inputs, kernel) + bias)\<close>, one
  output per unit. Keras builds the kernel with shape \<open>(input_dim, units)\<close> and the bias
  with shape \<open>(units)\<close>; the indices below stay in range for weights of that shape.
\<close>

definition dense_call :: "dense_config \<Rightarrow> dense_weights \<Rightarrow> matrix \<Rightarrow> matrix" where
  "dense_call cfg w inputs =
     map (\<lambda>x. map (\<lambda>j. activate (activation cfg)
                          ((\<Sum>i\<leftarrow>[0..<length x]. x ! i * kernel w ! i ! j) + bias w ! j))
                 [0..<units cfg])
         inputs"

text \<open>
  A layer instance is its configuration together with its own variables in the session
  (\<open>var\<close> selects them); applying the instance to a tensor gives a tensor.
\<close>

definition Dense :: "dense_config \<Rightarrow> (params \<Rightarrow> dense_weights) \<Rightarrow> tensor \<Rightarrow> tensor" where
  "Dense cfg var t = (\<lambda>r. dense_call cfg (var (layer_vars (sess r))) (t r))"

definition BatchNormalization ::
  "backend \<Rightarrow> (params \<Rightarrow> batchnorm_weights) \<Rightarrow> tensor \<Rightarrow> tensor" where
  "BatchNormalization K var t =
     (\<lambda>r. batch_normalization K (var (layer_vars (sess r))) (learning_phase r) (t r))"

definition Activation :: "activation \<Rightarrow> tensor \<Rightarrow> tensor" where
  "Activation a t = (\<lambda>r. map (map (activate a)) (t r))"

text \<open>The variables a layer gets when it is built on an input of width \<open>input_dim\<close>.\<close>

definition build_dense :: "backend \<Rightarrow> dense_config \<Rightarrow> string \<Rightarrow> nat \<Rightarrow> dense_weights" where
  "build_dense K cfg name input_dim =
     \<lparr>kernel = initial_kernel K (kernel_initializer cfg) name (input_dim, units cfg),
      bias = replicate (units cfg) 0\<rparr>"

definition build_batchnorm :: "nat \<Rightarrow> batchnorm_weights" where
  "build_batchnorm n =
     \<lparr>bn_gamma = replicate n 1, bn_beta = replicate n 0,
      moving_mean = replicate n 0, moving_variance = replicate n 1\<rparr>"

section \<open>The sampler\<close>

text \<open>
  \<^verbatim>\<open>sampling\<close> (lines 122-134), the body of the \<^verbatim>\<open>Lambda\<close> layer. The random op is part
  of the graph, so its draw is the one of the run in which the tensor is evaluated.
\<close>

definition sampling :: "real \<Rightarrow> tensor \<times> tensor \<Rightarrow> tensor" where
  "sampling epsilon_std args =
     (\<lambda>r.
        let (z_mean, z_log_var) = args;
            epsilon = random_normal r (shape (z_mean r)) 0 epsilon_std;
            z = mat_add (z_mean r) (mat_mul (K_exp (scalar_div (z_log_var r) 2)) epsilon)
        in z)"

section \<open>The loss and the warm-up callback\<close>

text \<open>
  \<^verbatim>\<open>CustomVariationalLayer.vae_loss\<close> (lines 146-151). The method body is executed once,
  when the layer is called on the symbolic tensors; \<^verbatim>\<open>K.get_value(beta)\<close> is evaluated
  then, in the session \<open>s\<close> of that moment, and its result is a plain number inside the
  returned tensor. Everything else is read in the run \<open>r\<close>.
\<close>

definition vae_loss ::
  "backend \<Rightarrow> nat \<Rightarrow> tensor \<Rightarrow> tensor \<Rightarrow> session \<Rightarrow> tensor \<Rightarrow> tensor \<Rightarrow> run \<Rightarrow> real" where
  "vae_loss K original_dim z_mean_encoded z_log_var_encoded s x_input x_decoded =
     (\<lambda>r.
        let reconstruction_loss =
              scalar_mul (real original_dim)
                (map2 (binary_crossentropy K) (x_input r) (x_decoded r));
            kl_loss =
              scalar_mul (- 0.5)
                (K_sum_last
                   (mat_sub
                      (mat_sub (scalar_add 1 (z_log_var_encoded r))
                         (K_square (z_mean_encoded r)))
                      (K_exp (z_log_var_encoded r))))
        in K_mean (vec_add reconstruction_loss (scalar_mul (K_get_value s) kl_loss)))"

text \<open>
  \<^verbatim>\<open>CustomVariationalLayer.call\<close> (lines 153-159): it returns its first input and
  registers the loss tensor with \<^verbatim>\<open>add_loss\<close>; the pair is the output and the losses.
\<close>

definition call ::
  "backend \<Rightarrow> nat \<Rightarrow> tensor \<Rightarrow> tensor \<Rightarrow> session \<Rightarrow> tensor list \<Rightarrow> tensor \<times> (run \<Rightarrow> real) list" where
  "call K original_dim z_mean_encoded z_log_var_encoded s inputs =
     (let x = inputs ! 0;
          x_decoded = inputs ! 1;
          loss = vae_loss K original_dim z_mean_encoded z_log_var_encoded s x x_decoded
      in (x, [loss]))"

text \<open>
  \<^verbatim>\<open>WarmUpCallback.on_epoch_end\<close> (lines 168-170), on the session that holds beta.
  What \<^verbatim>\<open>K.get_value\<close> reads is a float32 number and \<open>kappa\<close> a Python float: their sum
  is a double, which \<^verbatim>\<open>K.set_value\<close> then casts.
\<close>

definition on_epoch_end :: "real \<Rightarrow> session \<Rightarrow> session" where
  "on_epoch_end kappa s =
     (if K_get_value s \<le> 1 then K_set_value s (float64 (K_get_value s + kappa)) else s)"

section \<open>Data frames and the train/test split\<close>

text \<open>
  A pandas frame: the column labels, the name of the column axis, the name of the index,
  and the rows, each with its index label. The labels of \<^verbatim>\<open>df.index\<close> are
  \<open>map fst (rows df)\<close>, \<^verbatim>\<open>np.array(df)\<close> is \<open>map snd (rows df)\<close>, and \<^verbatim>\<open>df.shape[1]\<close> is
  \<open>length (columns df)\<close>.
\<close>

record ('r, 'c) frame =
  columns :: "'c list"
  columns_name :: "string option"
  index_name :: "string option"
  rows :: "('r \<times> vec) list"

definition randomState :: nat where
  "randomState = 123"

definition test_set_percent :: real where
  "test_set_percent = 0.1"

text \<open>\<^verbatim>\<open>df.take(locs)\<close>: the rows at the given positions, in the given order.\<close>

definition take_rows :: "nat list \<Rightarrow> ('r, 'c) frame \<Rightarrow> error + ('r, 'c) frame" where
  "take_rows locs df =
     (if list_all (\<lambda>l. l < length (rows df)) locs
      then Inr (df\<lparr>rows := map (\<lambda>l. rows df ! l) locs\<rparr>)
      else Inl IndexError)"

text \<open>
  \<^verbatim>\<open>df.sample(frac=frac, random_state=seed)\<close>: pandas computes
  \<^verbatim>\<open>n = int(round(frac * axis_length))\<close>, draws
  \<^verbatim>\<open>locs = RandomState(seed).choice(axis_length, size=n, replace=False)\<close> from a generator
  made afresh from the seed, and takes those rows.
\<close>

definition sample :: "backend \<Rightarrow> real \<Rightarrow> nat \<Rightarrow> ('r, 'c) frame \<Rightarrow> error + ('r, 'c) frame" where
  "sample K frac' random_state df =
     (let axis_length = length (rows df);
          n = py_round (frac' * real axis_length)
      in if n < 0 \<or> int axis_length < n then Inl ValueError
         else take_rows (choice K random_state axis_length (nat n)) df)"

text \<open>\<^verbatim>\<open>df.drop(labels)\<close>: every row whose index label is among \<open>labels\<close> goes.\<close>

definition drop_labels :: "'r list \<Rightarrow> ('r, 'c) frame \<Rightarrow> error + ('r, 'c) frame" where
  "drop_labels labels df =
     (if list_all (\<lambda>l. l \<in> set (map fst (rows df))) labels
      then Inr (df\<lparr>rows := filter (\<lambda>row. fst row \<notin> set labels) (rows df)\<rparr>)
      else Inl KeyError)"

text \<open>Lines 177-180: the held-out rows first, then the training rows.\<close>

definition split_data ::
  "backend \<Rightarrow> ('r, 'c) frame \<Rightarrow> error + (('r, 'c) frame \<times> ('r, 'c) frame)" where
  "split_data K rnaseq =
     (case sample K test_set_percent randomState rnaseq of
        Inl e \<Rightarrow> Inl e
      | Inr rnaseq_test_df \<Rightarrow>
          (case drop_labels (map fst (rows rnaseq_test_df)) rnaseq of
             Inl e \<Rightarrow> Inl e
           | Inr rnaseq_train_df \<Rightarrow> Inr (rnaseq_test_df, rnaseq_train_df)))"

section \<open>Architecture of the VAE\<close>

text \<open>Line 183: the placeholder for a batch of expression profiles.\<close>

definition rnaseq_input :: tensor where
  "rnaseq_input = rnaseq_input_feed"

subsection \<open>Encoder (lines 208-222)\<close>

definition layer_hidden_dense :: "nat \<Rightarrow> dense_config" where
  "layer_hidden_dense intermediate_dim =
     \<lparr>units = intermediate_dim, activation = linear, kernel_initializer = glorot_uniform\<rparr>"

definition layer_z_mean_dense :: "nat \<Rightarrow> dense_config" where
  "layer_z_mean_dense latent_dim =
     \<lparr>units = latent_dim, activation = linear, kernel_initializer = glorot_uniform\<rparr>"

definition layer_z_log_var_dense :: "nat \<Rightarrow> dense_config" where
  "layer_z_log_var_dense latent_dim =
     \<lparr>units = latent_dim, activation = linear, kernel_initializer = glorot_uniform\<rparr>"

definition hidden_dense_linear :: "nat \<Rightarrow> tensor" where
  "hidden_dense_linear intermediate_dim =
     Dense (layer_hidden_dense intermediate_dim) w_hidden_dense rnaseq_input"

definition hidden_dense_batchnorm :: "backend \<Rightarrow> nat \<Rightarrow> tensor" where
  "hidden_dense_batchnorm K intermediate_dim =
     BatchNormalization K w_hidden_batchnorm (hidden_dense_linear intermediate_dim)"

definition hidden_encoded :: "backend \<Rightarrow> nat \<Rightarrow> tensor" where
  "hidden_encoded K intermediate_dim = Activation relu (hidden_dense_batchnorm K intermediate_dim)"

definition z_mean_dense_linear :: "backend \<Rightarrow> nat \<Rightarrow> nat \<Rightarrow> tensor" where
  "z_mean_dense_linear K intermediate_dim latent_dim =
     Dense (layer_z_mean_dense latent_dim) w_z_mean_dense (hidden_encoded K intermediate_dim)"

definition z_mean_dense_batchnorm :: "backend \<Rightarrow> nat \<Rightarrow> nat \<Rightarrow> tensor" where
  "z_mean_dense_batchnorm K intermediate_dim latent_dim =
     BatchNormalization K w_z_mean_batchnorm (z_mean_dense_linear K intermediate_dim latent_dim)"

definition z_mean_encoded :: "backend \<Rightarrow> nat \<Rightarrow> nat \<Rightarrow> tensor" where
  "z_mean_encoded K intermediate_dim latent_dim =
     Activation relu (z_mean_dense_batchnorm K intermediate_dim latent_dim)"

definition z_log_var_dense_linear :: "nat \<Rightarrow> tensor" where
  "z_log_var_dense_linear latent_dim =
     Dense (layer_z_log_var_dense latent_dim) w_z_log_var_dense rnaseq_input"

definition z_log_var_dense_batchnorm :: "backend \<Rightarrow> nat \<Rightarrow> tensor" where
  "z_log_var_dense_batchnorm K latent_dim =
     BatchNormalization K w_z_log_var_batchnorm (z_log_var_dense_linear latent_dim)"

definition z_log_var_encoded :: "backend \<Rightarrow> nat \<Rightarrow> tensor" where
  "z_log_var_encoded K latent_dim = Activation relu (z_log_var_dense_batchnorm K latent_dim)"

subsection \<open>Sampled latent vector (lines 239-240)\<close>

definition z :: "backend \<Rightarrow> nat \<Rightarrow> nat \<Rightarrow> real \<Rightarrow> tensor" where
  "z K intermediate_dim latent_dim epsilon_std =
     sampling epsilon_std
       (z_mean_encoded K intermediate_dim latent_dim, z_log_var_encoded K latent_dim)"

subsection \<open>Decoder (lines 248-251)\<close>

definition layer_decoder_dense_1 :: "nat \<Rightarrow> dense_config" where
  "layer_decoder_dense_1 intermediate_dim =
     \<lparr>units = intermediate_dim, activation = relu, kernel_initializer = glorot_uniform\<rparr>"

definition layer_decoder_dense_2 :: "nat \<Rightarrow> dense_config" where
  "layer_decoder_dense_2 original_dim =
     \<lparr>units = original_dim, activation = sigmoid, kernel_initializer = glorot_uniform\<rparr>"

text \<open>
  The \<^verbatim>\<open>Sequential\<close> object: one instance of each of its two layers, whatever tensor it is
  called on.
\<close>

definition decoder_model :: "nat \<Rightarrow> nat \<Rightarrow> tensor \<Rightarrow> tensor" where
  "decoder_model original_dim intermediate_dim t =
     Dense (layer_decoder_dense_2 original_dim) w_decoder_dense_2
       (Dense (layer_decoder_dense_1 intermediate_dim) w_decoder_dense_1 t)"

definition rnaseq_reconstruct :: "backend \<Rightarrow> nat \<Rightarrow> nat \<Rightarrow> nat \<Rightarrow> real \<Rightarrow> tensor" where
  "rnaseq_reconstruct K original_dim intermediate_dim latent_dim epsilon_std =
     decoder_model original_dim intermediate_dim (z K intermediate_dim latent_dim epsilon_std)"

text \<open>The variables of all layers as they are right after construction.\<close>

definition initial_params :: "backend \<Rightarrow> nat \<Rightarrow> nat \<Rightarrow> nat \<Rightarrow> params" where
  "initial_params K original_dim intermediate_dim latent_dim =
     \<lparr>w_hidden_dense =
        build_dense K (layer_hidden_dense intermediate_dim) ''dense_1'' original_dim,
      w_hidden_batchnorm = build_batchnorm intermediate_dim,
      w_z_mean_dense =
        build_dense K (layer_z_mean_dense latent_dim) ''dense_2'' intermediate_dim,
      w_z_mean_batchnorm = build_batchnorm latent_dim,
      w_z_log_var_dense =
        build_dense K (layer_z_log_var_dense latent_dim) ''dense_3'' original_dim,
      w_z_log_var_batchnorm = build_batchnorm latent_dim,
      w_decoder_dense_1 =
        build_dense K (layer_decoder_dense_1 intermediate_dim) ''dense_4'' latent_dim,
      w_decoder_dense_2 =
        build_dense K (layer_decoder_dense_2 original_dim) ''dense_5'' intermediate_dim\<rparr>"

subsection \<open>Connections (lines 256-259)\<close>

record keras_model =
  model_input :: tensor
  model_output :: tensor
  model_losses :: "(run \<Rightarrow> real) list"

text \<open>
  \<^verbatim>\<open>Model.compile\<close> as far as this script uses it, for a model with one output. An output
  whose loss function is \<^verbatim>\<open>None\<close> is skipped, its entry of \<^verbatim>\<open>loss_weights\<close> with it; the
  objective is what remains plus every loss the layers registered.
\<close>

definition compile ::
  "(matrix \<Rightarrow> real) option \<Rightarrow> (run \<Rightarrow> real) list \<Rightarrow> keras_model \<Rightarrow> run \<Rightarrow> real" where
  "compile loss loss_weights m =
     (\<lambda>r. (case loss of
              None \<Rightarrow> 0
            | Some f \<Rightarrow> (case loss_weights of [] \<Rightarrow> 1 | w # _ \<Rightarrow> w r) * f (model_output m r))
           + sum_list (map (\<lambda>l. l r) (model_losses m)))"

text \<open>
  Lines 257-259, executed while the session is \<open>s\<close>: the objective the optimizer
  minimises. The variable \<^verbatim>\<open>beta\<close> itself is what \<^verbatim>\<open>loss_weights\<close> receives.
\<close>

definition vae_objective ::
  "backend \<Rightarrow> nat \<Rightarrow> nat \<Rightarrow> nat \<Rightarrow> real \<Rightarrow> session \<Rightarrow> run \<Rightarrow> real" where
  "vae_objective K original_dim intermediate_dim latent_dim epsilon_std s =
     (let (vae_layer, losses) =
            call K original_dim (z_mean_encoded K intermediate_dim latent_dim)
              (z_log_var_encoded K latent_dim) s
              [rnaseq_input,
               rnaseq_reconstruct K original_dim intermediate_dim latent_dim epsilon_std];
          vae = \<lparr>model_input = rnaseq_input, model_output = vae_layer, model_losses = losses\<rparr>
      in compile None [\<lambda>r. beta_var (sess r)] vae)"

section \<open>Training\<close>

text \<open>
  \<^verbatim>\<open>vae.fit\<close> with the \<^verbatim>\<open>WarmUpCallback\<close> (lines 268-270): in each epoch the optimizer
  rewrites the layer weights and its own slots, then the callback's \<^verbatim>\<open>on_epoch_end\<close>
  runs. The result is the per-epoch (loss, val_loss) record and the final session.
\<close>

fun fit_epochs ::
  "backend \<Rightarrow> real \<Rightarrow> nat \<Rightarrow> (run \<Rightarrow> real) \<Rightarrow> matrix \<Rightarrow> matrix \<Rightarrow> real \<Rightarrow> nat \<Rightarrow> nat \<Rightarrow> session
     \<Rightarrow> (real \<times> real) list \<times> session" where
  "fit_epochs K learning_rate batch_size objective x val kappa epoch 0 s = ([], s)"
| "fit_epochs K learning_rate batch_size objective x val kappa epoch (Suc n) s =
     (let ((p, slots), logs) = adam_epoch K learning_rate batch_size objective x val epoch s;
          s1 = s\<lparr>layer_vars := p, optimizer_vars := slots\<rparr>;
          s2 = on_epoch_end kappa s1;
          (history, s3) =
            fit_epochs K learning_rate batch_size objective x val kappa (Suc epoch) n s2
      in (logs # history, s3))"

definition fit ::
  "backend \<Rightarrow> real \<Rightarrow> nat \<Rightarrow> (run \<Rightarrow> real) \<Rightarrow> matrix \<Rightarrow> matrix \<Rightarrow> real \<Rightarrow> nat \<Rightarrow> session
     \<Rightarrow> (real \<times> real) list \<times> session" where
  "fit K learning_rate batch_size objective x val kappa epochs s =
     fit_epochs K learning_rate batch_size objective x val kappa 0 epochs s"

section \<open>Predictions with the trained model (lines 276-282)\<close>

text \<open>
  \<^verbatim>\<open>predict_on_batch\<close>: one run of the fetched tensor in inference mode on the given rows.
  The graph between \<^verbatim>\<open>rnaseq_input\<close> and \<^verbatim>\<open>z_mean_encoded\<close> holds no random op and no
  second placeholder, so the run draws nothing and feeds nothing else.
\<close>

definition predict_on_batch :: "tensor \<Rightarrow> session \<Rightarrow> matrix \<Rightarrow> matrix" where
  "predict_on_batch output s x =
     output \<lparr>sess = s, rnaseq_input_feed = x, decoder_input_feed = [],
             random_normal = (\<lambda>_ _ _. []), learning_phase = False\<rparr>"

text \<open>
  \<^verbatim>\<open>pd.DataFrame(array, index=df.index)\<close>, the index given by its labels and its name:
  the columns are labelled \<open>0, 1, ...\<close> and their axis has no name; pandas raises when the
  number of labels is not the number of rows.
\<close>

definition DataFrame :: "matrix \<Rightarrow> 'r list \<Rightarrow> string option \<Rightarrow> error + ('r, int) frame" where
  "DataFrame data idx name =
     (if length idx = length data
      then Inr \<lparr>columns = map int [0..<snd (shape data)], columns_name = None,
                index_name = name, rows = zip idx data\<rparr>
      else Inl ValueError)"

definition encoded_rnaseq_df ::
  "backend \<Rightarrow> nat \<Rightarrow> nat \<Rightarrow> session \<Rightarrow> ('r, 'c) frame \<Rightarrow> error + ('r, int) frame" where
  "encoded_rnaseq_df K intermediate_dim latent_dim s rnaseq =
     (let encoder = z_mean_encoded K intermediate_dim latent_dim;
          encoded = predict_on_batch encoder s (map snd (rows rnaseq))
      in case DataFrame encoded (map fst (rows rnaseq)) (index_name rnaseq) of
           Inl e \<Rightarrow> Inl e
         | Inr df \<Rightarrow>
             (let df1 = df\<lparr>columns_name := Some ''sample_id''\<rparr>;
                  df2 = df1\<lparr>columns := map (\<lambda>c. c + 1) (columns df1)\<rparr>
              in Inr df2))"

subsection \<open>The standalone decoder (lines 322-324)\<close>

definition decoder_input :: tensor where
  "decoder_input = decoder_input_feed"

definition decoder :: "nat \<Rightarrow> nat \<Rightarrow> tensor" where
  "decoder original_dim intermediate_dim =
     (let x_decoded_mean = decoder_model original_dim intermediate_dim decoder_input
      in x_decoded_mean)"

section \<open>Files\<close>

text \<open>\<^verbatim>\<open>os.path.join\<close> on a POSIX system, and \<^verbatim>\<open>"{}".format(n)\<close> for a natural number.\<close>

definition os_path_join :: "string \<Rightarrow> string list \<Rightarrow> string" where
  "os_path_join a p =
     foldl (\<lambda>path b.
              if take 1 b = ''/'' then b
              else if path = [] \<or> last path = CHR ''/'' then path @ b
              else path @ ''/'' @ b)
       a p"

fun str_nat :: "nat \<Rightarrow> string" where
  "str_nat n =
     (if n < 10 then [''0123456789'' ! n]
      else str_nat (n div 10) @ [''0123456789'' ! (n mod 10)])"

declare str_nat.simps [simp del]

definition data_file :: "string \<Rightarrow> string \<Rightarrow> string" where
  "data_file base_dir analysis_name =
     os_path_join base_dir [''data'', analysis_name, ''train_model_input.txt.xz'']"

definition stat_file :: "string \<Rightarrow> string \<Rightarrow> nat \<Rightarrow> string" where
  "stat_file base_dir analysis_name latent_dim =
     os_path_join base_dir
       [''stats'', analysis_name, ''tybalt_2layer_'' @ str_nat latent_dim @ ''latent_stats.tsv'']"

definition hist_plot_file :: "string \<Rightarrow> string \<Rightarrow> nat \<Rightarrow> string" where
  "hist_plot_file base_dir analysis_name latent_dim =
     os_path_join base_dir
       [''stats'', analysis_name, ''tybalt_2layer_'' @ str_nat latent_dim @ ''latent_hist.png'']"

definition encoded_file :: "string \<Rightarrow> string \<Rightarrow> nat \<Rightarrow> string" where
  "encoded_file base_dir analysis_name latent_dim =
     os_path_join base_dir
       [''encoded'', analysis_name,
        ''train_input_2layer_'' @ str_nat latent_dim @ ''latent_encoded.txt'']"

definition model_encoder_file :: "string \<Rightarrow> string \<Rightarrow> nat \<Rightarrow> string" where
  "model_encoder_file base_dir analysis_name latent_dim =
     os_path_join base_dir
       [''models'', analysis_name,
        ''tybalt_2layer_'' @ str_nat latent_dim @ ''latent_encoder_model.h5'']"

definition weights_encoder_file :: "string \<Rightarrow> string \<Rightarrow> nat \<Rightarrow> string" where
  "weights_encoder_file base_dir analysis_name latent_dim =
     os_path_join base_dir
       [''models'', analysis_name,
        ''tybalt_2layer_'' @ str_nat latent_dim @ ''latent_encoder_weights.h5'']"

definition model_decoder_file :: "string \<Rightarrow> string \<Rightarrow> nat \<Rightarrow> string" where
  "model_decoder_file base_dir analysis_name latent_dim =
     os_path_join base_dir
       [''models'', analysis_name,
        ''tybalt_2layer_'' @ str_nat latent_dim @ ''latent_decoder_model.h5'']"

definition weights_decoder_file :: "string \<Rightarrow> string \<Rightarrow> nat \<Rightarrow> string" where
  "weights_decoder_file base_dir analysis_name latent_dim =
     os_path_join base_dir
       [''models'', analysis_name,
        ''tybalt_2layer_'' @ str_nat latent_dim @ ''latent_decoder_weights.h5'']"

text \<open>
  What a path can hold: a readable expression table, something \<^verbatim>\<open>read_table\<close> cannot
  parse, or one of the artifacts the function writes. The encoded table is a
  tab-separated text: the cells of its header line, then one line per row with the index
  label and the values.
\<close>

type_synonym encoder_weights =
  "dense_weights \<times> batchnorm_weights \<times> dense_weights \<times> batchnorm_weights"

type_synonym decoder_weights = "dense_weights \<times> dense_weights"

datatype file_content =
    InputTable "(string, string) frame"
  | Unreadable
  | HistoryPlot "(real \<times> real) list"
  | StatsTable "(real \<times> real) list" real nat nat real
  | EncodedTable "string list" "(string \<times> vec) list"
  | EncoderModel encoder_weights
  | EncoderWeights encoder_weights
  | DecoderModel decoder_weights
  | DecoderWeights decoder_weights

type_synonym filesystem = "string \<rightharpoonup> file_content"

text \<open>Line 76: \<^verbatim>\<open>pd.read_table\<close> raises on a missing or malformed file.\<close>

definition read_table :: "filesystem \<Rightarrow> string \<Rightarrow> error + (string, string) frame" where
  "read_table fs path =
     (case fs path of
        None \<Rightarrow> Inl FileNotFoundError
      | Some (InputTable df) \<Rightarrow> Inr df
      | Some _ \<Rightarrow> Inl ParserError)"

definition encoder_vars :: "params \<Rightarrow> encoder_weights" where
  "encoder_vars p =
     (w_hidden_dense p, w_hidden_batchnorm p, w_z_mean_dense p, w_z_mean_batchnorm p)"

definition decoder_vars :: "params \<Rightarrow> decoder_weights" where
  "decoder_vars p = (w_decoder_dense_1 p, w_decoder_dense_2 p)"

section \<open>The whole function\<close>

text \<open>Line 95 and the layer constructors: the session before training.\<close>

definition initial_session :: "backend \<Rightarrow> nat \<Rightarrow> nat \<Rightarrow> nat \<Rightarrow> session" where
  "initial_session K original_dim intermediate_dim latent_dim =
     \<lparr>beta_var = 0,
      layer_vars = initial_params K original_dim intermediate_dim latent_dim,
      optimizer_vars = []\<rparr>"

text \<open>
  Lines 288-293: \<^verbatim>\<open>pd.DataFrame(hist.history).plot()\<close>. After no epoch at all the history
  holds no column, and pandas raises \<^verbatim>\<open>TypeError\<close> (no numeric data to plot).
\<close>

definition plot :: "(real \<times> real) list \<Rightarrow> error + file_content" where
  "plot history = (if history = [] then Inl TypeError else Inr (HistoryPlot history))"

text \<open>
  \<^verbatim>\<open>df.to_csv(path, sep='\t')\<close> for the embedding: the header line is the name of the index
  (empty when it has none) followed by the column labels; the name of the column axis is
  not written.
\<close>

definition str_int :: "int \<Rightarrow> string" where
  "str_int i = (if i < 0 then ''-'' @ str_nat (nat (- i)) else str_nat (nat i))"

definition to_csv :: "(string, int) frame \<Rightarrow> file_content" where
  "to_csv df =
     EncodedTable
       ((case index_name df of None \<Rightarrow> [] | Some name \<Rightarrow> name) # map str_int (columns df))
       (rows df)"

text \<open>
  Writing files one after the other: the first refusal ends the call, and what was written
  before it stays.
\<close>

fun write_all ::
  "backend \<Rightarrow> (string \<times> file_content) list \<Rightarrow> filesystem \<Rightarrow> error option \<times> filesystem" where
  "write_all K [] fs = (None, fs)"
| "write_all K ((path, content) # rest) fs =
     (case write_error K path of
        Some e \<Rightarrow> (Some e, fs)
      | None \<Rightarrow> write_all K rest (fs(path \<mapsto> content)))"

text \<open>
  \<^verbatim>\<open>tybalt_2layer_model\<close> (lines 64-329) on a file system. The result is how the call
  ends: the exception, if any; the file system it leaves; and the values of its local
  variables \<^verbatim>\<open>rnaseq_test_df\<close> and \<^verbatim>\<open>rnaseq_train_df\<close>, once line 180 has assigned them.
  An exception ends the call at once. The order is the source's: the table is read
  (line 76), split (179-180), the model built and fitted (183-270), the embedding
  computed (276-282), the history plotted (288-292), and then the seven outputs written
  (293-329).
\<close>

definition tybalt_2layer_model ::
  "backend \<Rightarrow> real \<Rightarrow> nat \<Rightarrow> nat \<Rightarrow> real \<Rightarrow> nat \<Rightarrow> nat \<Rightarrow> real \<Rightarrow> string \<Rightarrow> string \<Rightarrow> filesystem
     \<Rightarrow> error option \<times> filesystem
         \<times> ((string, string) frame \<times> (string, string) frame) option" where
  "tybalt_2layer_model K learning_rate batch_size epochs kappa intermediate_dim latent_dim
       epsilon_std base_dir analysis_name fs =
     (case read_table fs (data_file base_dir analysis_name) of
        Inl e \<Rightarrow> (Some e, fs, None)
      | Inr rnaseq \<Rightarrow>
          (case split_data K rnaseq of
             Inl e \<Rightarrow> (Some e, fs, None)
           | Inr (rnaseq_test_df, rnaseq_train_df) \<Rightarrow>
               (let original_dim = length (columns rnaseq);
                    split = Some (rnaseq_test_df, rnaseq_train_df);
                    x = map snd (rows rnaseq_train_df);
                    val = map snd (rows rnaseq_test_df)
                in case training_error K learning_rate batch_size epochs kappa
                          (original_dim, intermediate_dim, latent_dim) epsilon_std x val of
                     Some e \<Rightarrow> (Some e, fs, split)
                   | None \<Rightarrow>
                       (let s0 = initial_session K original_dim intermediate_dim latent_dim;
                            objective =
                              vae_objective K original_dim intermediate_dim latent_dim
                                epsilon_std s0;
                            (history, s) =
                              fit K learning_rate batch_size objective x val kappa epochs s0
                        in case encoded_rnaseq_df K intermediate_dim latent_dim s rnaseq of
                             Inl e \<Rightarrow> (Some e, fs, split)
                           | Inr encoded \<Rightarrow>
                               (case plot history of
                                  Inl e \<Rightarrow> (Some e, fs, split)
                                | Inr figure \<Rightarrow>
                                    (let (raised, fs') =
                                           write_all K
                                             [(hist_plot_file base_dir analysis_name latent_dim,
                                               figure),
                                              (stat_file base_dir analysis_name latent_dim,
                                               StatsTable history learning_rate batch_size
                                                 epochs kappa),
                                              (encoded_file base_dir analysis_name latent_dim,
                                               to_csv encoded),
                                              (model_encoder_file base_dir analysis_name
                                                 latent_dim,
                                               EncoderModel (encoder_vars (layer_vars s))),
                                              (weights_encoder_file base_dir analysis_name
                                                 latent_dim,
                                               EncoderWeights (encoder_vars (layer_vars s))),
                                              (model_decoder_file base_dir analysis_name
                                                 latent_dim,
                                               DecoderModel (decoder_vars (layer_vars s))),
                                              (weights_decoder_file base_dir analysis_name
                                                 latent_dim,
                                               DecoderWeights (decoder_vars (layer_vars s)))]
                                             fs
                                     in (raised, fs', split)))))))"

section \<open>A small concrete instance\<close>

text \<open>
  A backend and a session on which every definition above can be evaluated: the loss
  primitive is constantly zero, batch normalization is the identity, every initial kernel
  entry is one, the sampled positions are the first ones, an epoch of the optimizer
  leaves the weights as they are, training raises for a batch size of 0 only, and every
  file can be written.
\<close>

definition toy_backend :: backend where
  "toy_backend =
     \<lparr>binary_crossentropy = (\<lambda>x y. 0),
      batch_normalization = (\<lambda>w phase m. m),
      initial_kernel = (\<lambda>init name sh. replicate (fst sh) (replicate (snd sh) 1)),
      choice = (\<lambda>seed N n. [0..<n]),
      adam_epoch = (\<lambda>lr bs obj x val epoch s. ((layer_vars s, optimizer_vars s), (0, 0))),
      training_error =
        (\<lambda>lr bs epochs kappa dims eps x val. if bs = 0 then Some ZeroDivisionError else None),
      write_error = (\<lambda>path. None)\<rparr>"


definition toy_session :: session where
  "toy_session =
     \<lparr>beta_var = 0, layer_vars = initial_params toy_backend 1 1 1, optimizer_vars = []\<rparr>"

text \<open>
  An inference run in that session; every entry \<^verbatim>\<open>K.random_normal\<close> yields in it is the
  mean plus twice the standard deviation.
\<close>

definition toy_run :: run where
  "toy_run =
     \<lparr>sess = toy_session, rnaseq_input_feed = [[1]], decoder_input_feed = [[1]],
      random_normal = (\<lambda>sh m sd. replicate (fst sh) (replicate (snd sh) (m + 2 * sd))),
      learning_phase = False\<rparr>"

definition toy_frame :: "(nat, string) frame" where
  "toy_frame =
     \<lparr>columns = [''gene_1''], columns_name = None, index_name = None,
      rows = [(10, [0]), (11, [1 / 10]), (12, [2 / 10]), (13, [3 / 10]), (14, [4 / 10]),
              (15, [5 / 10]), (16, [6 / 10]), (17, [7 / 10]), (18, [8 / 10]), (19, [9 / 10]),
              (20, [1]), (21, [1 / 2]), (22, [1 / 4]), (23, [3 / 4]), (24, [1 / 8])]\<rparr>"

text \<open>
  A training run on the one-row batch \<open>[[1]]\<close> after one completed epoch with
  \<open>kappa = 1/2\<close>, the objective being the one built in \<open>toy_session\<close>.
\<close>

definition warmed_up_run :: run where
  "warmed_up_run =
     \<lparr>sess = snd (fit toy_backend 0 1 (vae_objective toy_backend 1 1 1 1 toy_session)
                    [[1]] [] (1 / 2) 1 toy_session),
      rnaseq_input_feed = [[1]], decoder_input_feed = [],
      random_normal = (\<lambda>sh m sd. [[0]]), learning_phase = True\<rparr>"

text \<open>A six-row expression table and file systems that hold it.\<close>

definition toy_table :: "(string, string) frame" where
  "toy_table =
     \<lparr>columns = [''gene_1''], columns_name = None, index_name = None,
      rows = [(''s1'', [0]), (''s2'', [1 / 2]), (''s3'', [1 / 4]), (''s4'', [1]),
              (''s5'', [3 / 4]), (''s6'', [1 / 8])]\<rparr>"

definition toy_fs :: filesystem where
  "toy_fs = [''d/data/a/train_model_input.txt.xz'' \<mapsto> InputTable toy_table]"

definition toy_fs' :: filesystem where
  "toy_fs' = [''e/data/b/train_model_input.txt.xz'' \<mapsto> InputTable toy_table,
              ''d/data/a/train_model_input.txt.xz'' \<mapsto> Unreadable]"

section \<open>The loss as the specification words it\<close>

text \<open>
  The specification's loss weights the KL term by the value the warm-up cell holds when
  the loss is evaluated: the same expression as \<^verbatim>\<open>vae_loss\<close>, with beta read in the
  session of the run.
\<close>

definition loss_with_current_beta ::
  "backend \<Rightarrow> nat \<Rightarrow> tensor \<Rightarrow> tensor \<Rightarrow> tensor \<Rightarrow> tensor \<Rightarrow> run \<Rightarrow> real" where
  "loss_with_current_beta K original_dim z_mean z_log_var x x_hat =
     (\<lambda>r. vae_loss K original_dim z_mean z_log_var (sess r) x x_hat r)"


section \<open>Floating-point rounding\<close>

lemma py_round_bounds:
  "x - 1 / 2 \<le> real_of_int (py_round x) \<and> real_of_int (py_round x) \<le> x + 1 / 2"
proof -
  define f where "f = \<lfloor>x\<rfloor>"
  have fl: "real_of_int f \<le> x" "x < real_of_int f + 1"
    unfolding f_def by linarith+
  have r: "py_round x =
      (if x - of_int f < 1 / 2 then f else if 1 / 2 < x - of_int f then f + 1
       else if even f then f else f + 1)"
    by (simp add: py_round_def Let_def f_def)
  consider "x - of_int f < 1 / 2" | "1 / 2 < x - of_int f" | "x - of_int f = 1 / 2"
    by linarith
  then show ?thesis
  proof cases
    case 1
    with r have "py_round x = f" by simp
    with fl 1 show ?thesis by simp
  next
    case 2
    with r have "py_round x = f + 1" by simp
    with fl 2 show ?thesis by simp
  next
    case 3
    with r have "py_round x = f \<or> py_round x = f + 1" by simp
    with fl 3 show ?thesis by auto
  qed
qed

text \<open>Powers of two, and the error of one rounding.\<close>

lemma pow2_powr: "pow2 k = 2 powr real_of_int k"
  by (simp add: pow2_def powr_int)










text \<open>Evaluating a rounding once the binade of the argument is known.\<close>

lemma float_round_eval:
  assumes "0 < x" and "pow2 e \<le> x" and "x < pow2 (e + 1)"
  shows "float_round p emin x =
           real_of_int (py_round (x / pow2 (max e emin - int p + 1)))
             * pow2 (max e emin - int p + 1)"
proof -
  have "\<lfloor>log 2 x\<rfloor> = e"
    using assms floor_log_eq_powr_iff [of x 2 e] by (simp add: pow2_powr)
  then show ?thesis using assms(1) by (simp add: float_round_def Let_def)
qed


lemma float64_half: "float64 (1 / 2) = 1 / 2"
  unfolding float64_def
  by (subst float_round_eval [where e = "- 1"]) (simp_all add: pow2_def py_round_def)

lemma float32_half: "float32 (1 / 2) = 1 / 2"
  unfolding float32_def
  by (subst float_round_eval [where e = "- 1"]) (simp_all add: pow2_def py_round_def)

lemma float64_one: "float64 1 = 1"
  unfolding float64_def
  by (subst float_round_eval [where e = 0]) (simp_all add: pow2_def py_round_def)

lemma float32_one: "float32 1 = 1"
  unfolding float32_def
  by (subst float_round_eval [where e = 0]) (simp_all add: pow2_def py_round_def)







section \<open>The warm-up schedule\<close>


lemma on_epoch_end_keeps_layer_vars:
  "layer_vars (on_epoch_end kappa s) = layer_vars s"
  by (simp add: on_epoch_end_def K_get_value_def K_set_value_def)












section \<open>The objective and the warm-up coefficient\<close>

lemma encoder_ignores_beta:
  "z_mean_encoded K idim ldim (r\<lparr>sess := (sess r)\<lparr>beta_var := b\<rparr>\<rparr>) =
     z_mean_encoded K idim ldim r"
  "z_log_var_encoded K ldim (r\<lparr>sess := (sess r)\<lparr>beta_var := b\<rparr>\<rparr>) =
     z_log_var_encoded K ldim r"
  "rnaseq_input (r\<lparr>sess := (sess r)\<lparr>beta_var := b\<rparr>\<rparr>) = rnaseq_input r"
  by (simp_all add: z_mean_encoded_def z_mean_dense_batchnorm_def z_mean_dense_linear_def
      hidden_encoded_def hidden_dense_batchnorm_def hidden_dense_linear_def
      z_log_var_encoded_def z_log_var_dense_batchnorm_def z_log_var_dense_linear_def
      rnaseq_input_def Dense_def BatchNormalization_def Activation_def)

lemma reconstruct_ignores_beta:
  "rnaseq_reconstruct K odim idim ldim eps (r\<lparr>sess := (sess r)\<lparr>beta_var := b\<rparr>\<rparr>) =
   rnaseq_reconstruct K odim idim ldim eps r"
  by (simp add: rnaseq_reconstruct_def decoder_model_def z_def sampling_def Dense_def
      encoder_ignores_beta)

text \<open>With no loss function given to \<^verbatim>\<open>compile\<close>, the objective is the registered loss.\<close>

lemma vae_objective_unfold:
  "vae_objective K odim idim ldim eps s r =
     vae_loss K odim (z_mean_encoded K idim ldim) (z_log_var_encoded K ldim) s rnaseq_input
       (rnaseq_reconstruct K odim idim ldim eps) r"
  by (simp add: vae_objective_def call_def compile_def)

lemmas toy_simps =
  fit_def toy_backend_def toy_session_def on_epoch_end_def
  K_get_value_def K_set_value_def
  z_mean_encoded_def z_mean_dense_batchnorm_def z_mean_dense_linear_def
  hidden_encoded_def hidden_dense_batchnorm_def hidden_dense_linear_def
  z_log_var_encoded_def z_log_var_dense_batchnorm_def z_log_var_dense_linear_def
  rnaseq_input_def Dense_def BatchNormalization_def Activation_def initial_params_def
  build_dense_def build_batchnorm_def dense_call_def
  layer_hidden_dense_def layer_z_mean_dense_def layer_z_log_var_dense_def
  rnaseq_reconstruct_def decoder_model_def z_def sampling_def
  layer_decoder_dense_1_def layer_decoder_dense_2_def
  K_mean_def vec_add_def scalar_mul_def K_sum_last_def mat_sub_def mat_add_def mat_mul_def
  scalar_add_def K_square_def K_exp_def shape_def scalar_div_def
  float64_half float32_half float64_one float32_one

text \<open>
  C1. The claim: the training loss is the mean over samples of
  \<open>original_dim * bce + beta * KL\<close> with beta the value of the warm-up cell when the loss is
  evaluated. Evaluated on the code: after one completed epoch with \<open>kappa = 1/2\<close> the cell
  holds 1/2, both encoder outputs on the batch \<open>[[1]]\<close> are \<open>[[1]]\<close>, the objective the
  optimizer is given is 0 (the KL term still has weight 0), and the loss of the claim is
  \<open>(e - 1) / 4\<close>.
\<close>

theorem vae_objective_after_warm_up:
  "beta_var (sess warmed_up_run) = 1 / 2 \<and>
   z_mean_encoded toy_backend 1 1 warmed_up_run = [[1]] \<and>
   z_log_var_encoded toy_backend 1 warmed_up_run = [[1]] \<and>
   vae_objective toy_backend 1 1 1 1 toy_session warmed_up_run = 0 \<and>
   loss_with_current_beta toy_backend 1 (z_mean_encoded toy_backend 1 1)
     (z_log_var_encoded toy_backend 1) rnaseq_input
     (rnaseq_reconstruct toy_backend 1 1 1 1) warmed_up_run = (exp 1 - 1) / 4 \<and>
   vae_objective toy_backend 1 1 1 1 toy_session warmed_up_run \<noteq>
     loss_with_current_beta toy_backend 1 (z_mean_encoded toy_backend 1 1)
       (z_log_var_encoded toy_backend 1) rnaseq_input
       (rnaseq_reconstruct toy_backend 1 1 1 1) warmed_up_run"
proof -
  have a1: "beta_var (sess warmed_up_run) = 1 / 2"
    by (simp add: warmed_up_run_def toy_simps)
  have a2: "z_mean_encoded toy_backend 1 1 warmed_up_run = [[1]]"
    by (simp add: warmed_up_run_def toy_simps)
  have a3: "z_log_var_encoded toy_backend 1 warmed_up_run = [[1]]"
    by (simp add: warmed_up_run_def toy_simps)
  have a4: "vae_objective toy_backend 1 1 1 1 toy_session warmed_up_run = 0"
    by (simp add: vae_objective_unfold vae_loss_def warmed_up_run_def toy_simps)
  have a5: "loss_with_current_beta toy_backend 1 (z_mean_encoded toy_backend 1 1)
     (z_log_var_encoded toy_backend 1) rnaseq_input
     (rnaseq_reconstruct toy_backend 1 1 1 1) warmed_up_run = (exp 1 - 1) / 4"
    by (simp add: loss_with_current_beta_def vae_loss_def warmed_up_run_def toy_simps
        field_simps)
  have a6: "(0 :: real) \<noteq> (exp 1 - 1) / 4"
    by simp
  have a7: "vae_objective toy_backend 1 1 1 1 toy_session warmed_up_run \<noteq>
     loss_with_current_beta toy_backend 1 (z_mean_encoded toy_backend 1 1)
       (z_log_var_encoded toy_backend 1) rnaseq_input
       (rnaseq_reconstruct toy_backend 1 1 1 1) warmed_up_run"
    unfolding a4 a5 by (rule a6)
  from a1 a2 a3 a4 a5 a7 show ?thesis by blast
qed

text \<open>
  C2. The objective the optimizer is given, built while beta holds its initial value 0,
  weights the KL term by the number 0; and for an objective built in any session \<open>s\<close>,
  two runs that differ only in the value stored in the beta variable give the same
  result, in particular a run before and a run after the callback's update.
\<close>

theorem objective_coefficient_fixed_at_build:
  "vae_objective K odim idim ldim eps \<lparr>beta_var = 0, layer_vars = p, optimizer_vars = v\<rparr> r =
     K_mean (vec_add
       (scalar_mul (real odim)
          (map2 (binary_crossentropy K) (rnaseq_input r)
             (rnaseq_reconstruct K odim idim ldim eps r)))
       (scalar_mul 0
          (scalar_mul (- 0.5)
             (K_sum_last
                (mat_sub
                   (mat_sub (scalar_add 1 (z_log_var_encoded K ldim r))
                      (K_square (z_mean_encoded K idim ldim r)))
                   (K_exp (z_log_var_encoded K ldim r))))))) \<and>
   vae_objective K odim idim ldim eps s (r\<lparr>sess := (sess r)\<lparr>beta_var := b\<rparr>\<rparr>) =
     vae_objective K odim idim ldim eps s (r\<lparr>sess := (sess r)\<lparr>beta_var := b'\<rparr>\<rparr>) \<and>
   vae_objective K odim idim ldim eps s (r\<lparr>sess := on_epoch_end kappa (sess r)\<rparr>) =
     vae_objective K odim idim ldim eps s r"
proof (intro conjI)
  show "vae_objective K odim idim ldim eps
          \<lparr>beta_var = 0, layer_vars = p, optimizer_vars = v\<rparr> r =
     K_mean (vec_add
       (scalar_mul (real odim)
          (map2 (binary_crossentropy K) (rnaseq_input r)
             (rnaseq_reconstruct K odim idim ldim eps r)))
       (scalar_mul 0
          (scalar_mul (- 0.5)
             (K_sum_last
                (mat_sub
                   (mat_sub (scalar_add 1 (z_log_var_encoded K ldim r))
                      (K_square (z_mean_encoded K idim ldim r)))
                   (K_exp (z_log_var_encoded K ldim r)))))))"
    by (simp add: vae_objective_unfold vae_loss_def K_get_value_def)
  have ind: "\<And>c. vae_objective K odim idim ldim eps s (r\<lparr>sess := (sess r)\<lparr>beta_var := c\<rparr>\<rparr>) =
     vae_objective K odim idim ldim eps s r"
    by (simp add: vae_objective_unfold vae_loss_def encoder_ignores_beta
        reconstruct_ignores_beta)
  show "vae_objective K odim idim ldim eps s (r\<lparr>sess := (sess r)\<lparr>beta_var := b\<rparr>\<rparr>) =
     vae_objective K odim idim ldim eps s (r\<lparr>sess := (sess r)\<lparr>beta_var := b'\<rparr>\<rparr>)"
    by (simp only: ind)
  show "vae_objective K odim idim ldim eps s (r\<lparr>sess := on_epoch_end kappa (sess r)\<rparr>) =
     vae_objective K odim idim ldim eps s r"
    using ind [of "float32 (float64 (beta_var (sess r) + kappa))"]
    by (simp add: on_epoch_end_def K_get_value_def K_set_value_def)
qed

section \<open>The train/test split\<close>

text \<open>A tenth of the rows, rounded, is between no row and all rows: \<^verbatim>\<open>sample\<close> never raises.\<close>

lemma py_round_fraction_nonneg: "0 \<le> py_round (test_set_percent * real N)"
proof -
  have "0 \<le> test_set_percent * real N" by (simp add: test_set_percent_def)
  with py_round_bounds [of "test_set_percent * real N"]
  have "- 1 / 2 \<le> real_of_int (py_round (test_set_percent * real N))" by linarith
  then have "(-1 :: real) < real_of_int (py_round (test_set_percent * real N))" by linarith
  then have "-1 < py_round (test_set_percent * real N)" by linarith
  then show ?thesis by linarith
qed

lemma py_round_fraction_le: "py_round (test_set_percent * real N) \<le> int N"
proof (cases "N = 0")
  case True
  then show ?thesis by (simp add: py_round_def)
next
  case False
  then have "1 \<le> real N" by simp
  then have "test_set_percent * real N + 1 / 2 \<le> real N"
    by (simp add: test_set_percent_def)
  with py_round_bounds [of "test_set_percent * real N"]
  have "real_of_int (py_round (test_set_percent * real N)) \<le> real N" by linarith
  then show ?thesis by linarith
qed

lemma sample_ok:
  assumes "list_all (\<lambda>l. l < length (rows df))
             (choice K randomState (length (rows df))
                (nat (py_round (test_set_percent * real (length (rows df))))))"
  shows "sample K test_set_percent randomState df =
     Inr (df\<lparr>rows := map (\<lambda>l. rows df ! l)
            (choice K randomState (length (rows df))
               (nat (py_round (test_set_percent * real (length (rows df))))))\<rparr>)"
  using assms py_round_fraction_nonneg [of "length (rows df)"]
    py_round_fraction_le [of "length (rows df)"]
  by (simp add: sample_def take_rows_def Let_def)

lemma drop_labels_ok:
  assumes "set labels \<subseteq> fst ` set (rows df)"
  shows "drop_labels labels df =
           Inr (df\<lparr>rows := filter (\<lambda>row. fst row \<notin> set labels) (rows df)\<rparr>)"
  using assms by (auto simp: drop_labels_def list_all_iff)

lemma filter_labels_length:
  assumes d: "distinct (map fst xs)" and sub: "set ys \<subseteq> set xs" and dy: "distinct ys"
  shows "length (filter (\<lambda>row. fst row \<notin> fst ` set ys) xs) = length xs - length ys"
proof -
  have dx: "distinct xs" and inj: "inj_on fst (set xs)"
    using d by (simp_all add: distinct_map)
  have eq: "{x \<in> set xs. fst x \<in> fst ` set ys} = set ys"
    using sub inj by (auto simp: inj_on_def)
  have "length (filter (\<lambda>row. fst row \<in> fst ` set ys) xs) =
          card {x \<in> set xs. fst x \<in> fst ` set ys}"
    using dx by (simp add: distinct_length_filter Int_def conj_commute)
  also have "\<dots> = length ys" using eq dy by (simp add: distinct_card)
  finally have a: "length (filter (\<lambda>row. fst row \<in> fst ` set ys) xs) = length ys" .
  have "length (filter (\<lambda>row. fst row \<in> fst ` set ys) xs) +
        length (filter (\<lambda>row. \<not> (fst row \<in> fst ` set ys)) xs) = length xs"
    by (rule sum_length_filter_compl)
  with a show ?thesis by simp
qed

lemma filter_labels_set:
  assumes d: "distinct (map fst xs)" and sub: "set ys \<subseteq> set xs"
  shows "set (filter (\<lambda>row. fst row \<notin> fst ` set ys) xs) = set xs - set ys"
proof -
  have inj: "inj_on fst (set xs)" using d by (simp add: distinct_map)
  show ?thesis using sub inj by (auto simp: inj_on_def)
qed

lemma nth_rows_distinct:
  assumes "distinct xs" and "distinct locs" and "set locs \<subseteq> {..<length xs}"
  shows "distinct (map (\<lambda>l. xs ! l) locs)"
proof -
  have "inj_on (\<lambda>l. xs ! l) (set locs)"
    unfolding inj_on_def using assms nth_eq_iff_index_eq by (metis lessThan_iff subsetD)
  with assms(2) show ?thesis by (simp add: distinct_map)
qed

text \<open>
  C4. For a table of \<open>N\<close> rows with pairwise different identifiers, and a seeded draw
  \<open>locs\<close> of \<open>n = round(0.1 * N)\<close> positions without replacement (pairwise different, all
  below \<open>N\<close>): the split succeeds; the test subset is the \<open>n\<close> rows at the drawn positions,
  in the drawn order, no identifier twice; the train subset is the remaining \<open>N - n\<close> rows
  in their original order; no identifier is in both, together they are all rows; and the
  split is the same for whatever else the backend does, as long as the draw for seed 123
  is the same.
\<close>

theorem split_data_partition:
  fixes rnaseq :: "('r, 'c) frame" and K :: backend
  defines "N \<equiv> length (rows rnaseq)"
  defines "n \<equiv> nat (py_round (0.1 * real N))"
  defines "locs \<equiv> choice K 123 N n"
  defines "test \<equiv> rnaseq\<lparr>rows := map (\<lambda>l. rows rnaseq ! l) locs\<rparr>"
  defines "train \<equiv>
    rnaseq\<lparr>rows := filter (\<lambda>row. fst row \<notin> set (map fst (rows test))) (rows rnaseq)\<rparr>"
  assumes ids: "distinct (map fst (rows rnaseq))"
    and drawn: "distinct locs \<and> length locs = n \<and> set locs \<subseteq> {..<N}"
  shows "split_data K rnaseq = Inr (test, train) \<and>
         length (rows test) = n \<and>
         length (rows train) = N - n \<and>
         distinct (map fst (rows test)) \<and>
         set (map fst (rows test)) \<inter> set (map fst (rows train)) = {} \<and>
         set (rows test) \<union> set (rows train) = set (rows rnaseq) \<and>
         (\<forall>K' :: backend. choice K' 123 N n = locs \<longrightarrow>
            split_data K' rnaseq = split_data K rnaseq)"
proof -
  have sub: "set (rows test) \<subseteq> set (rows rnaseq)"
    using drawn by (auto simp: test_def N_def)
  have ok: "\<And>K' :: backend. choice K' 123 N n = locs \<Longrightarrow>
              split_data K' rnaseq = Inr (test, train)"
  proof -
    fix K' :: backend assume c: "choice K' 123 N n = locs"
    have e: "choice K' randomState (length (rows rnaseq))
               (nat (py_round (test_set_percent * real (length (rows rnaseq))))) = locs"
      using c by (simp add: randomState_def test_set_percent_def n_def N_def)
    have "list_all (\<lambda>l. l < length (rows rnaseq)) locs"
      using drawn by (auto simp: list_all_iff N_def)
    then have s: "sample K' test_set_percent randomState rnaseq = Inr test"
      using sample_ok [of rnaseq K'] by (simp add: e test_def)
    have "set (map fst (rows test)) \<subseteq> fst ` set (rows rnaseq)"
      using sub by auto
    then have d: "drop_labels (map fst (rows test)) rnaseq = Inr train"
      by (simp add: drop_labels_ok train_def)
    show "split_data K' rnaseq = Inr (test, train)"
      by (simp add: split_data_def s d)
  qed
  have dr: "distinct (rows rnaseq)" using ids by (simp add: distinct_map)
  have dt: "distinct (rows test)"
    using nth_rows_distinct [OF dr, of locs] drawn by (simp add: test_def N_def)
  have tr: "rows train = filter (\<lambda>row. fst row \<notin> fst ` set (rows test)) (rows rnaseq)"
    by (simp add: train_def)
  have l1: "length (rows test) = n" using drawn by (simp add: test_def)
  have l2: "length (rows train) = N - n"
    using filter_labels_length [OF ids sub dt] l1 by (simp add: tr N_def)
  have st: "set (rows train) = set (rows rnaseq) - set (rows test)"
    using filter_labels_set [OF ids sub] by (simp add: tr)
  have d4: "distinct (map fst (rows test))"
  proof -
    have "inj_on fst (set (rows rnaseq))" using ids by (simp add: distinct_map)
    then have "inj_on fst (set (rows test))" using sub by (rule inj_on_subset)
    with dt show ?thesis by (simp add: distinct_map)
  qed
  have d5: "set (map fst (rows test)) \<inter> set (map fst (rows train)) = {}"
    by (force simp: tr)
  have d6: "set (rows test) \<union> set (rows train) = set (rows rnaseq)"
    using st sub by auto
  have d1: "split_data K rnaseq = Inr (test, train)"
    by (rule ok) (simp add: locs_def)
  have d7: "\<forall>K' :: backend. choice K' 123 N n = locs \<longrightarrow>
              split_data K' rnaseq = split_data K rnaseq"
    using ok d1 by simp
  from d1 l1 l2 d4 d5 d6 d7 show ?thesis by blast
qed

text \<open>
  Fifteen rows: a tenth is 1.5, which rounds to the even 2; the first two positions are
  drawn, and the other thirteen rows train.
\<close>

theorem split_data_partition_witness:
  "distinct (map fst (rows toy_frame)) \<and>
   length (rows toy_frame) = 15 \<and>
   nat (py_round (0.1 * real (length (rows toy_frame)))) = 2 \<and>
   choice toy_backend 123 15 2 = [0, 1] \<and>
   split_data toy_backend toy_frame =
     Inr (toy_frame\<lparr>rows := [(10, [0]), (11, [1 / 10])]\<rparr>,
          toy_frame\<lparr>rows := [(12, [2 / 10]), (13, [3 / 10]), (14, [4 / 10]),
              (15, [5 / 10]), (16, [6 / 10]), (17, [7 / 10]), (18, [8 / 10]), (19, [9 / 10]),
              (20, [1]), (21, [1 / 2]), (22, [1 / 4]), (23, [3 / 4]), (24, [1 / 8])]\<rparr>)"
proof -
  have h1: "distinct (map fst (rows toy_frame))"
    by (simp add: toy_frame_def)
  have len: "length (rows toy_frame) = 15"
    by (simp add: toy_frame_def)
  have n2: "nat (py_round (1 / 10 * real (length (rows toy_frame)))) = 2"
    by (simp add: len py_round_def)
  have c: "choice toy_backend 123 15 2 = [0, 1]"
    by (simp add: toy_backend_def upt_rec)
  have h2: "distinct (choice toy_backend 123 (length (rows toy_frame))
               (nat (py_round (1 / 10 * real (length (rows toy_frame)))))) \<and>
            length (choice toy_backend 123 (length (rows toy_frame))
               (nat (py_round (1 / 10 * real (length (rows toy_frame)))))) =
              nat (py_round (1 / 10 * real (length (rows toy_frame)))) \<and>
            set (choice toy_backend 123 (length (rows toy_frame))
               (nat (py_round (1 / 10 * real (length (rows toy_frame))))))
              \<subseteq> {..<length (rows toy_frame)}"
    by (simp only: n2) (simp add: len c)
  have "split_data toy_backend toy_frame =
     Inr (toy_frame\<lparr>rows := [(10, [0]), (11, [1 / 10])]\<rparr>,
          toy_frame\<lparr>rows := [(12, [2 / 10]), (13, [3 / 10]), (14, [4 / 10]),
              (15, [5 / 10]), (16, [6 / 10]), (17, [7 / 10]), (18, [8 / 10]), (19, [9 / 10]),
              (20, [1]), (21, [1 / 2]), (22, [1 / 4]), (23, [3 / 4]), (24, [1 / 8])]\<rparr>)"
    using split_data_partition [OF h1 h2]
    by (simp only: n2) (simp add: len c, simp add: toy_frame_def)
  with h1 len n2 c show ?thesis by simp
qed

section \<open>The sampler's output\<close>

lemma has_shape_nth:
  "has_shape m (b, d) \<Longrightarrow> i < b \<Longrightarrow> length (m ! i) = d"
  by (simp add: has_shape_def list_all_length)

lemma has_shape_shape:
  "has_shape m (b, d) \<Longrightarrow> 0 < b \<Longrightarrow> shape m = (b, d)"
  by (cases m) (auto simp: has_shape_def shape_def)

lemma has_shape_empty:
  "has_shape m (0, d) \<Longrightarrow> m = []"
  by (simp add: has_shape_def)

lemma map_map_index:
  assumes "has_shape m (b, d)"
  shows "map (map g) m = map (\<lambda>i. map (\<lambda>j. g (m ! i ! j)) [0..<d]) [0..<b]"
proof (rule nth_equalityI)
  show "length (map (map g) m) = length (map (\<lambda>i. map (\<lambda>j. g (m ! i ! j)) [0..<d]) [0..<b])"
    using assms by (simp add: has_shape_def)
next
  fix i assume "i < length (map (map g) m)"
  then have i: "i < b" using assms by (simp add: has_shape_def)
  then have l: "length (m ! i) = d" using assms by (rule has_shape_nth [rotated])
  have "map g (m ! i) = map (\<lambda>j. g (m ! i ! j)) [0..<d]"
    by (rule nth_equalityI) (simp_all add: l)
  then show "map (map g) m ! i = map (\<lambda>i. map (\<lambda>j. g (m ! i ! j)) [0..<d]) [0..<b] ! i"
    using i assms by (simp add: has_shape_def)
qed

lemma map2_map2_index:
  assumes "has_shape m (b, d)" and "has_shape m' (b, d)"
  shows "map2 (map2 f) m m' = map (\<lambda>i. map (\<lambda>j. f (m ! i ! j) (m' ! i ! j)) [0..<d]) [0..<b]"
proof (rule nth_equalityI)
  show "length (map2 (map2 f) m m') =
        length (map (\<lambda>i. map (\<lambda>j. f (m ! i ! j) (m' ! i ! j)) [0..<d]) [0..<b])"
    using assms by (simp add: has_shape_def)
next
  fix i assume "i < length (map2 (map2 f) m m')"
  then have i: "i < b" using assms by (simp add: has_shape_def)
  have l: "length (m ! i) = d" "length (m' ! i) = d"
    using assms i by (simp_all add: has_shape_nth)
  have "map2 f (m ! i) (m' ! i) = map (\<lambda>j. f (m ! i ! j) (m' ! i ! j)) [0..<d]"
    by (rule nth_equalityI) (simp_all add: l)
  then show "map2 (map2 f) m m' ! i =
        map (\<lambda>i. map (\<lambda>j. f (m ! i ! j) (m' ! i ! j)) [0..<d]) [0..<b] ! i"
    using i assms by (simp add: has_shape_def)
qed

lemma has_shape_index:
  "has_shape (map (\<lambda>i. map (\<lambda>j. h i j) [0..<d]) [0..<b]) (b, d)"
  by (simp add: has_shape_def list_all_iff)

text \<open>
  C5. For encoder outputs \<open>z_mean\<close> and \<open>z_log_var\<close> of shape \<open>(b, d)\<close> in a run, and the
  draw \<open>epsilon\<close> that \<^verbatim>\<open>K.random_normal\<close> makes in that run for the shape of \<open>z_mean\<close>,
  mean 0 and standard deviation \<open>epsilon_std\<close>: every entry of the sampler's output is
  \<open>z_mean + exp(z_log_var / 2) * epsilon\<close>, the output has the shape of \<open>z_mean\<close>, and it
  depends on the run only through these three values (the sampler keeps nothing from
  one run to the next; each run brings its own draw).
\<close>

theorem sampling_reparameterization:
  assumes zm: "has_shape (z_mean r) (b, d)"
    and zl: "has_shape (z_log_var r) (b, d)"
    and dr: "has_shape (random_normal r (shape (z_mean r)) 0 epsilon_std) (shape (z_mean r))"
  shows "sampling epsilon_std (z_mean, z_log_var) r =
           map (\<lambda>i. map (\<lambda>j. z_mean r ! i ! j
                             + exp (z_log_var r ! i ! j / 2)
                               * random_normal r (shape (z_mean r)) 0 epsilon_std ! i ! j)
                       [0..<d])
               [0..<b] \<and>
         has_shape (sampling epsilon_std (z_mean, z_log_var) r) (b, d) \<and>
         (\<forall>r'. z_mean r' = z_mean r \<and> z_log_var r' = z_log_var r \<and>
               random_normal r' = random_normal r \<longrightarrow>
               sampling epsilon_std (z_mean, z_log_var) r' =
               sampling epsilon_std (z_mean, z_log_var) r)"
proof -
  let ?eps = "random_normal r (shape (z_mean r)) 0 epsilon_std"
  let ?rhs = "map (\<lambda>i. map (\<lambda>j. z_mean r ! i ! j + exp (z_log_var r ! i ! j / 2) * ?eps ! i ! j)
                       [0..<d]) [0..<b]"
  have main: "sampling epsilon_std (z_mean, z_log_var) r = ?rhs"
  proof (cases "b = 0")
    case True
    with zm have "z_mean r = []" by (simp add: has_shape_def)
    with True show ?thesis by (simp add: sampling_def mat_add_def)
  next
    case False
    then have "shape (z_mean r) = (b, d)" using zm by (simp add: has_shape_shape)
    with dr have e: "has_shape ?eps (b, d)" by simp
    have s: "has_shape (K_exp (scalar_div (z_log_var r) 2)) (b, d)"
      using zl by (simp add: K_exp_def scalar_div_def has_shape_def list_all_iff)
    have m: "mat_mul (K_exp (scalar_div (z_log_var r) 2)) ?eps =
             map (\<lambda>i. map (\<lambda>j. K_exp (scalar_div (z_log_var r) 2) ! i ! j * ?eps ! i ! j) [0..<d]) [0..<b]"
      unfolding mat_mul_def by (rule map2_map2_index [OF s e])
    have x: "K_exp (scalar_div (z_log_var r) 2) =
             map (\<lambda>i. map (\<lambda>j. exp (z_log_var r ! i ! j / 2)) [0..<d]) [0..<b]"
      using map_map_index [OF zl, of "\<lambda>v. exp (v / 2)"]
      by (simp add: K_exp_def scalar_div_def o_def)
    have m': "mat_mul (K_exp (scalar_div (z_log_var r) 2)) ?eps =
             map (\<lambda>i. map (\<lambda>j. exp (z_log_var r ! i ! j / 2) * ?eps ! i ! j) [0..<d]) [0..<b]"
      by (subst m) (simp add: x)
    have hs: "has_shape (mat_mul (K_exp (scalar_div (z_log_var r) 2)) ?eps) (b, d)"
      unfolding m' by (rule has_shape_index)
    have "mat_add (z_mean r) (mat_mul (K_exp (scalar_div (z_log_var r) 2)) ?eps) = ?rhs"
      unfolding mat_add_def
      by (subst map2_map2_index [OF zm hs]) (simp add: m')
    then show ?thesis by (simp add: sampling_def)
  qed
  have sh: "has_shape (sampling epsilon_std (z_mean, z_log_var) r) (b, d)"
    unfolding main by (rule has_shape_index)
  have st: "\<forall>r'. z_mean r' = z_mean r \<and> z_log_var r' = z_log_var r \<and>
               random_normal r' = random_normal r \<longrightarrow>
               sampling epsilon_std (z_mean, z_log_var) r' =
               sampling epsilon_std (z_mean, z_log_var) r"
    by (simp add: sampling_def)
  from main sh st show ?thesis by blast
qed


text \<open>One row, two latent dimensions, every drawn entry equal to 2.\<close>

theorem sampling_reparameterization_witness:
  "has_shape [[1, 2]] (1, 2) \<and> has_shape [[0, 0]] (1, 2) \<and>
   random_normal toy_run (shape [[1, 2]]) 0 1 = [[2, 2]] \<and>
   has_shape (random_normal toy_run (shape [[1, 2]]) 0 1) (shape [[1, 2]]) \<and>
   sampling 1 (\<lambda>r. [[1, 2]], \<lambda>r. [[0, 0]]) toy_run = [[3, 4]]"
proof -
  have a: "has_shape ((\<lambda>r :: run. [[1, 2]]) toy_run) (1, 2)"
    by (simp add: has_shape_def)
  have b: "has_shape ((\<lambda>r :: run. [[0, 0]]) toy_run) (1, 2)"
    by (simp add: has_shape_def)
  have d: "random_normal toy_run (shape [[1, 2]]) 0 1 = [[2, 2]]"
    by (simp add: toy_run_def shape_def numeral_2_eq_2)
  have c: "has_shape (random_normal toy_run (shape ((\<lambda>r :: run. [[1, 2]]) toy_run)) 0 1)
             (shape ((\<lambda>r :: run. [[1, 2]]) toy_run))"
    by (simp add: d) (simp add: has_shape_def shape_def)
  have "sampling 1 (\<lambda>r. [[1, 2]], \<lambda>r. [[0, 0]]) toy_run = [[3, 4]]"
    using sampling_reparameterization [OF a b c]
    by (simp add: d upt_rec)
  with a b c d show ?thesis by simp
qed

section \<open>Encoder and decoder\<close>

text \<open>
  C6. In every run, \<open>hidden = relu(BatchNorm(Dense(x)))\<close> with \<open>intermediate_dim\<close> units,
  \<open>z_mean = relu(BatchNorm(Dense(hidden)))\<close> and \<open>z_log_var = relu(BatchNorm(Dense(x)))\<close>
  with \<open>latent_dim\<close> units each, \<open>x\<close> being the value fed to the input placeholder;
  \<open>z_log_var\<close> is unchanged when the variables of the hidden and mean layers are replaced;
  and the kernels of the three dense layers of the encoder start as draws of the
  \<open>glorot_uniform\<close> initializer.
\<close>

theorem encoder_branches:
  fixes K :: backend
  defines "x \<equiv> \<lambda>r. rnaseq_input_feed r"
  defines "p \<equiv> \<lambda>r. layer_vars (sess r)"
  defines "hidden \<equiv> \<lambda>idim r.
     map (map (activate relu))
       (batch_normalization K (w_hidden_batchnorm (p r)) (learning_phase r)
          (dense_call \<lparr>units = idim, activation = linear, kernel_initializer = glorot_uniform\<rparr>
             (w_hidden_dense (p r)) (x r)))"
  shows "hidden_encoded K idim r = hidden idim r \<and>
         z_mean_encoded K idim ldim r =
           map (map (activate relu))
             (batch_normalization K (w_z_mean_batchnorm (p r)) (learning_phase r)
                (dense_call
                   \<lparr>units = ldim, activation = linear, kernel_initializer = glorot_uniform\<rparr>
                   (w_z_mean_dense (p r)) (hidden idim r))) \<and>
         z_log_var_encoded K ldim r =
           map (map (activate relu))
             (batch_normalization K (w_z_log_var_batchnorm (p r)) (learning_phase r)
                (dense_call
                   \<lparr>units = ldim, activation = linear, kernel_initializer = glorot_uniform\<rparr>
                   (w_z_log_var_dense (p r)) (x r))) \<and>
         z_log_var_encoded K ldim
           (r\<lparr>sess := (sess r)\<lparr>layer_vars := (p r)
               \<lparr>w_hidden_dense := hd', w_hidden_batchnorm := hb',
                w_z_mean_dense := md', w_z_mean_batchnorm := mb'\<rparr>\<rparr>\<rparr>) =
           z_log_var_encoded K ldim r \<and>
         kernel (w_hidden_dense (initial_params K odim idim ldim)) =
           initial_kernel K glorot_uniform ''dense_1'' (odim, idim) \<and>
         kernel (w_z_mean_dense (initial_params K odim idim ldim)) =
           initial_kernel K glorot_uniform ''dense_2'' (idim, ldim) \<and>
         kernel (w_z_log_var_dense (initial_params K odim idim ldim)) =
           initial_kernel K glorot_uniform ''dense_3'' (odim, ldim)"
  by (simp add: x_def p_def hidden_def z_mean_encoded_def z_mean_dense_batchnorm_def
      z_mean_dense_linear_def hidden_encoded_def hidden_dense_batchnorm_def
      hidden_dense_linear_def z_log_var_encoded_def z_log_var_dense_batchnorm_def
      z_log_var_dense_linear_def rnaseq_input_def Dense_def BatchNormalization_def
      Activation_def layer_hidden_dense_def layer_z_mean_dense_def layer_z_log_var_dense_def
      initial_params_def build_dense_def)

text \<open>
  C7. The decoder is \<open>Dense(original_dim, sigmoid)\<close> after \<open>Dense(intermediate_dim, relu)\<close>.
  The standalone model reads the variables of the same two layer instances as the
  reconstruction wired after the sampler: whenever the two runs hold the same decoder
  variables and the standalone model is fed the latent batch the sampler produced, both
  give the same reconstruction.
\<close>

theorem decoder_shared_instance:
  fixes K :: backend
  defines "dec \<equiv> \<lambda>odim idim w v.
     dense_call \<lparr>units = odim, activation = sigmoid, kernel_initializer = glorot_uniform\<rparr>
       (snd w)
       (dense_call \<lparr>units = idim, activation = relu, kernel_initializer = glorot_uniform\<rparr>
          (fst w) v)"
  shows "decoder odim idim r =
           dec odim idim (decoder_vars (layer_vars (sess r))) (decoder_input_feed r) \<and>
         rnaseq_reconstruct K odim idim ldim eps r =
           dec odim idim (decoder_vars (layer_vars (sess r))) (z K idim ldim eps r) \<and>
         (decoder_vars (layer_vars (sess r')) = decoder_vars (layer_vars (sess r)) \<and>
          decoder_input_feed r' = z K idim ldim eps r \<longrightarrow>
            decoder odim idim r' = rnaseq_reconstruct K odim idim ldim eps r)"
  by (simp add: dec_def decoder_def decoder_input_def rnaseq_reconstruct_def decoder_model_def
      Dense_def decoder_vars_def layer_decoder_dense_1_def layer_decoder_dense_2_def)


text \<open>The latent batch \<open>[[1]]\<close> in both: the reconstruction is \<open>sigmoid 1\<close>.\<close>

theorem decoder_shared_instance_witness:
  "decoder_vars (layer_vars (sess (toy_run\<lparr>rnaseq_input_feed := [], learning_phase := True\<rparr>))) =
     decoder_vars (layer_vars (sess toy_run)) \<and>
   decoder_input_feed (toy_run\<lparr>rnaseq_input_feed := [], learning_phase := True\<rparr>) =
     z toy_backend 1 1 0 toy_run \<and>
   decoder 1 1 (toy_run\<lparr>rnaseq_input_feed := [], learning_phase := True\<rparr>) =
     [[1 / (1 + exp (- 1))]] \<and>
   rnaseq_reconstruct toy_backend 1 1 1 0 toy_run = [[1 / (1 + exp (- 1))]]"
proof -
  let ?r' = "toy_run\<lparr>rnaseq_input_feed := [], learning_phase := True\<rparr>"
  have a: "decoder_vars (layer_vars (sess ?r')) = decoder_vars (layer_vars (sess toy_run))"
    by simp
  have b: "decoder_input_feed ?r' = z toy_backend 1 1 0 toy_run"
    by (simp add: toy_run_def toy_simps)
  have c: "decoder 1 1 ?r' = [[1 / (1 + exp (- 1))]]"
    by (simp add: decoder_def decoder_input_def toy_run_def toy_simps)
  from decoder_shared_instance [where r' = ?r' and r = toy_run and K = toy_backend
      and idim = 1 and ldim = 1 and odim = 1 and eps = 0] a b c
  show ?thesis by simp
qed

section \<open>The exported embedding\<close>



lemma activation_lengths: "map length (map (map f) m) = map length m"
  by simp

















text \<open>Whatever happens after line 180, the split is the one of the table that was read.\<close>

lemma tybalt_split:
  "snd (snd (tybalt_2layer_model K lr bs epochs kappa idim ldim eps base_dir analysis_name
               fs)) =
     (case read_table fs (data_file base_dir analysis_name) of
        Inl e \<Rightarrow> None
      | Inr rnaseq \<Rightarrow> (case split_data K rnaseq of Inl e \<Rightarrow> None | Inr sp \<Rightarrow> Some sp))"
  unfolding tybalt_2layer_model_def
  by (simp add: Let_def split: sum.splits option.splits prod.splits)

subsection \<open>A complete run on the small instance\<close>

text \<open>
  The whole function evaluated on the six-row table with the optimizer that learns: the
  paths it derives, the split (a tenth of six rows rounds to one test row), three epochs
  of training, the embedding, and the seven files it leaves behind.
\<close>

lemma toy_read: "read_table toy_fs (data_file ''d'' ''a'') = Inr toy_table"
  by (simp add: read_table_def data_file_def os_path_join_def toy_fs_def)











section \<open>Failure to read the input\<close>

text \<open>
  C9. If reading the input table fails, the call ends with that very error, before the
  split is made, and the file system is as it was: none of the seven outputs exists or is
  touched. The error is \<open>FileNotFoundError\<close> for a missing file and \<open>ParserError\<close> for a
  malformed one.
\<close>

theorem read_failure_writes_nothing:
  assumes "read_table fs (data_file base_dir analysis_name) = Inl e"
  shows "tybalt_2layer_model K learning_rate batch_size epochs kappa intermediate_dim latent_dim
           epsilon_std base_dir analysis_name fs = (Some e, fs, None) \<and>
         e = (if fs (data_file base_dir analysis_name) = None then FileNotFoundError
              else ParserError)"
proof -
  have "tybalt_2layer_model K learning_rate batch_size epochs kappa intermediate_dim
      latent_dim epsilon_std base_dir analysis_name fs = (Some e, fs, None)"
    using assms by (simp add: tybalt_2layer_model_def)
  moreover have "e = (if fs (data_file base_dir analysis_name) = None then FileNotFoundError
              else ParserError)"
    using assms by (auto simp: read_table_def split: option.splits file_content.splits)
  ultimately show ?thesis by simp
qed

text \<open>No file at all, and an unreadable file at the input path.\<close>

theorem read_failure_writes_nothing_witness:
  "read_table Map.empty (data_file ''d'' ''a'') = Inl FileNotFoundError \<and>
   tybalt_2layer_model toy_backend (1 / 1000) 1 3 (1 / 2) 1 1 1 ''d'' ''a'' Map.empty =
     (Some FileNotFoundError, Map.empty, None) \<and>
   read_table toy_fs' (data_file ''d'' ''a'') = Inl ParserError \<and>
   tybalt_2layer_model toy_backend (1 / 1000) 1 3 (1 / 2) 1 1 1 ''d'' ''a'' toy_fs' =
     (Some ParserError, toy_fs', None)"
proof -
  have a: "read_table Map.empty (data_file ''d'' ''a'') = Inl FileNotFoundError"
    by (simp add: read_table_def)
  have b: "read_table toy_fs' (data_file ''d'' ''a'') = Inl ParserError"
    by (simp add: read_table_def data_file_def os_path_join_def toy_fs'_def)
  from read_failure_writes_nothing [OF a, of toy_backend "1 / 1000" 1 3 "1 / 2" 1 1 1]
    read_failure_writes_nothing [OF b, of toy_backend "1 / 1000" 1 3 "1 / 2" 1 1 1] a b
  show ?thesis by simp
qed

section \<open>The split and the hyperparameters\<close>

text \<open>
  C10. The test fraction is the constant 1/10 and the seed the constant 123; neither is a
  parameter of \<^verbatim>\<open>tybalt_2layer_model\<close>. The split a call of the function makes, however the
  call ends afterwards, is the sample of a tenth of the table it read under seed 123 and
  the rest of that table. So for any two calls whose input paths read as the same table,
  whatever their learning rates, batch sizes, numbers of epochs, kappas, layer widths,
  \<open>epsilon_std\<close>, base directories, analysis names and file systems, the two splits are
  the same.
\<close>

theorem split_ignores_hyperparameters:
  fixes K :: backend
  assumes "read_table fs (data_file base_dir analysis_name) =
           read_table fs' (data_file base_dir' analysis_name')"
  shows "test_set_percent = 1 / 10 \<and> randomState = 123 \<and>
    snd (snd (tybalt_2layer_model K learning_rate batch_size epochs kappa intermediate_dim
                latent_dim epsilon_std base_dir analysis_name fs)) =
      (case read_table fs (data_file base_dir analysis_name) of
         Inl e \<Rightarrow> None
       | Inr rnaseq \<Rightarrow>
           (case sample K (1 / 10) 123 rnaseq of
              Inl e \<Rightarrow> None
            | Inr rnaseq_test_df \<Rightarrow>
                (case drop_labels (map fst (rows rnaseq_test_df)) rnaseq of
                   Inl e \<Rightarrow> None
                 | Inr rnaseq_train_df \<Rightarrow> Some (rnaseq_test_df, rnaseq_train_df)))) \<and>
    snd (snd (tybalt_2layer_model K learning_rate batch_size epochs kappa intermediate_dim
                latent_dim epsilon_std base_dir analysis_name fs)) =
    snd (snd (tybalt_2layer_model K learning_rate' batch_size' epochs' kappa'
                intermediate_dim' latent_dim' epsilon_std' base_dir' analysis_name' fs'))"
proof -
  have a: "test_set_percent = 1 / 10" by (simp add: test_set_percent_def)
  have b: "randomState = 123" by (simp add: randomState_def)
  have c: "snd (snd (tybalt_2layer_model K learning_rate batch_size epochs kappa
                intermediate_dim latent_dim epsilon_std base_dir analysis_name fs)) =
      (case read_table fs (data_file base_dir analysis_name) of
         Inl e \<Rightarrow> None
       | Inr rnaseq \<Rightarrow>
           (case sample K (1 / 10) 123 rnaseq of
              Inl e \<Rightarrow> None
            | Inr rnaseq_test_df \<Rightarrow>
                (case drop_labels (map fst (rows rnaseq_test_df)) rnaseq of
                   Inl e \<Rightarrow> None
                 | Inr rnaseq_train_df \<Rightarrow> Some (rnaseq_test_df, rnaseq_train_df))))"
    unfolding tybalt_split
    by (simp add: split_data_def test_set_percent_def randomState_def split: sum.splits)
  have d: "snd (snd (tybalt_2layer_model K learning_rate batch_size epochs kappa
                intermediate_dim latent_dim epsilon_std base_dir analysis_name fs)) =
    snd (snd (tybalt_2layer_model K learning_rate' batch_size' epochs' kappa'
                intermediate_dim' latent_dim' epsilon_std' base_dir' analysis_name' fs'))"
    unfolding tybalt_split using assms by simp
  from a b c d show ?thesis by blast
qed

text \<open>
  The six-row table under two base directories and analysis names. The first call trains
  for three epochs and writes its files; the second, with other hyperparameters and a
  batch size of 0, raises in training. Both hold out the row \<open>s1\<close>.
\<close>

theorem split_ignores_hyperparameters_witness:
  "read_table toy_fs (data_file ''d'' ''a'') = read_table toy_fs' (data_file ''e'' ''b'') \<and>
   snd (snd (tybalt_2layer_model toy_backend (1 / 1000) 1 3 (1 / 2) 1 1 1 ''d'' ''a'' toy_fs)) =
     Some (toy_table\<lparr>rows := [(''s1'', [0])]\<rparr>,
           toy_table\<lparr>rows := [(''s2'', [1 / 2]), (''s3'', [1 / 4]), (''s4'', [1]),
                               (''s5'', [3 / 4]), (''s6'', [1 / 8])]\<rparr>) \<and>
   snd (snd (tybalt_2layer_model toy_backend (1 / 10) 0 7 2 3 2 5 ''e'' ''b'' toy_fs')) =
     Some (toy_table\<lparr>rows := [(''s1'', [0])]\<rparr>,
           toy_table\<lparr>rows := [(''s2'', [1 / 2]), (''s3'', [1 / 4]), (''s4'', [1]),
                               (''s5'', [3 / 4]), (''s6'', [1 / 8])]\<rparr>) \<and>
   fst (tybalt_2layer_model toy_backend (1 / 10) 0 7 2 3 2 5 ''e'' ''b'' toy_fs') =
     Some ZeroDivisionError"
proof -
  have a: "read_table toy_fs' (data_file ''e'' ''b'') = Inr toy_table"
    by (simp add: read_table_def data_file_def os_path_join_def toy_fs'_def)
  have r: "read_table toy_fs (data_file ''d'' ''a'') =
           read_table toy_fs' (data_file ''e'' ''b'')"
    by (simp only: a toy_read)
  note inst = split_ignores_hyperparameters [OF r, where K = toy_backend
      and learning_rate = "1 / 1000" and batch_size = 1 and epochs = 3 and kappa = "1 / 2"
      and intermediate_dim = 1 and latent_dim = 1 and epsilon_std = 1
      and learning_rate' = "1 / 10" and batch_size' = 0 and epochs' = 7 and kappa' = 2
      and intermediate_dim' = 3 and latent_dim' = 2 and epsilon_std' = 5]
  have s: "(case sample toy_backend (1 / 10) 123 toy_table of
              Inl e \<Rightarrow> None
            | Inr rnaseq_test_df \<Rightarrow>
                (case drop_labels (map fst (rows rnaseq_test_df)) toy_table of
                   Inl e \<Rightarrow> None
                 | Inr rnaseq_train_df \<Rightarrow> Some (rnaseq_test_df, rnaseq_train_df))) =
     Some (toy_table\<lparr>rows := [(''s1'', [0])]\<rparr>,
           toy_table\<lparr>rows := [(''s2'', [1 / 2]), (''s3'', [1 / 4]), (''s4'', [1]),
                               (''s5'', [3 / 4]), (''s6'', [1 / 8])]\<rparr>)"
    by (simp add: sample_def take_rows_def drop_labels_def toy_table_def toy_backend_def
        py_round_def)
  have b: "snd (snd (tybalt_2layer_model toy_backend (1 / 1000) 1 3 (1 / 2) 1 1 1 ''d'' ''a''
                       toy_fs)) =
     Some (toy_table\<lparr>rows := [(''s1'', [0])]\<rparr>,
           toy_table\<lparr>rows := [(''s2'', [1 / 2]), (''s3'', [1 / 4]), (''s4'', [1]),
                               (''s5'', [3 / 4]), (''s6'', [1 / 8])]\<rparr>)"
    using conjunct1 [OF conjunct2 [OF conjunct2 [OF inst]]]
    by (simp only: toy_read sum.case s)
  have c: "snd (snd (tybalt_2layer_model toy_backend (1 / 10) 0 7 2 3 2 5 ''e'' ''b''
                       toy_fs')) =
     Some (toy_table\<lparr>rows := [(''s1'', [0])]\<rparr>,
           toy_table\<lparr>rows := [(''s2'', [1 / 2]), (''s3'', [1 / 4]), (''s4'', [1]),
                               (''s5'', [3 / 4]), (''s6'', [1 / 8])]\<rparr>)"
    using conjunct2 [OF conjunct2 [OF conjunct2 [OF inst]]] b by simp
  have sp: "split_data toy_backend toy_table =
     Inr (toy_table\<lparr>rows := [(''s1'', [0])]\<rparr>,
          toy_table\<lparr>rows := [(''s2'', [1 / 2]), (''s3'', [1 / 4]), (''s4'', [1]),
                              (''s5'', [3 / 4]), (''s6'', [1 / 8])]\<rparr>)"
    by (simp add: split_data_def sample_def take_rows_def drop_labels_def toy_table_def
        toy_backend_def py_round_def test_set_percent_def randomState_def)
  have t: "\<And>lr e k dims eps x v.
      training_error toy_backend lr 0 e k dims eps x v = Some ZeroDivisionError"
    by (simp add: toy_backend_def)
  have d: "fst (tybalt_2layer_model toy_backend (1 / 10) 0 7 2 3 2 5 ''e'' ''b'' toy_fs') =
     Some ZeroDivisionError"
    unfolding tybalt_2layer_model_def by (simp add: a sp t)
  from r b c d show ?thesis by blast
qed

end
